theory Spec2Isabelle
  imports Main "HOL-Library.Word"
begin

unbundle bit_operations_syntax

section \<open>Text and JSON values\<close>

text \<open>
  Text is a list of 8-bit code units (\<^typ>\<open>string\<close>); script strings holding a code unit
  above 255 are outside this development. The helpers below follow the string methods the
  extension calls.
\<close>

fun join :: "string \<Rightarrow> string list \<Rightarrow> string" where
  "join sep [] = []"
| "join sep [p] = p"
| "join sep (p # q # ps) = p @ sep @ join sep (q # ps)"

text \<open>
  \<open>toLowerCase\<close> on 8-bit code units: \<open>A\<close> to \<open>Z\<close> (0x41 to 0x5A) and the upper-case letters
  of Latin-1 (0xC0 to 0xDE without 0xD7) are moved up by 0x20, that is, bit 5 is set. The
  test reads the bits of the code unit; bit 0 is the lowest.
\<close>

fun lowerChar :: "char \<Rightarrow> char" where
  "lowerChar (Char b0 b1 b2 b3 b4 b5 b6 b7) =
     (if b6 \<and> \<not> b5 \<and>
         (if b7 then \<not> (b4 \<and> \<not> b3 \<and> b2 \<and> b1 \<and> b0) \<and> \<not> (b4 \<and> b3 \<and> b2 \<and> b1 \<and> b0)
          else (b0 \<or> b1 \<or> b2 \<or> b3 \<or> b4) \<and> \<not> (b4 \<and> b3 \<and> (b2 \<or> (b1 \<and> b0))))
      then Char b0 b1 b2 b3 b4 True b6 b7
      else Char b0 b1 b2 b3 b4 b5 b6 b7)"

definition toLowerCase :: "string \<Rightarrow> string" where
  "toLowerCase s = map lowerChar s"

text \<open>
  Numbers are integers (\<^typ>\<open>int\<close>); \<open>toDecimal\<close> and \<open>toHex\<close> render a number that is not
  negative the way \<open>toString(10)\<close> and \<open>toString(16)\<close> do.
\<close>

definition hexDigit :: "int \<Rightarrow> char" where
  "hexDigit d = ''0123456789abcdef'' ! nat (d mod 16)"

function toDecimal :: "int \<Rightarrow> string" where
  "toDecimal n = (if n < 10 then [hexDigit n] else toDecimal (n div 10) @ [hexDigit (n mod 10)])"
  by pat_completeness auto
termination
  by (relation "measure nat") auto

declare toDecimal.simps [simp del]

function toHex :: "int \<Rightarrow> string" where
  "toHex n = (if n < 16 then [hexDigit n] else toHex (n div 16) @ [hexDigit (n mod 16)])"
  by pat_completeness auto
termination
  by (relation "measure nat") auto

declare toHex.simps [simp del]

text \<open>
  The values \<open>JSON.stringify\<close> can render: an object is an association list in property
  order, a number is an integer (the only numbers a snapshot holds are the time stamp and
  byte values).
\<close>

datatype json =
    JNull
  | JBool bool
  | JNum int
  | JStr string
  | JArr "json list"
  | JObj "(string \<times> json) list"

text \<open>
  \<open>QuoteJSONString\<close>: the quote, the backslash and the control characters (code units
  below 0x20, those with bits 5 to 7 clear) are escaped.
\<close>

definition escapeChar :: "char \<Rightarrow> string" where
  "escapeChar c =
     (if c = CHR 0x22 then [CHR 0x5C, CHR 0x22]
      else if c = CHR 0x5C then [CHR 0x5C, CHR 0x5C]
      else if c = CHR 0x08 then [CHR 0x5C, CHR ''b'']
      else if c = CHR 0x0C then [CHR 0x5C, CHR ''f'']
      else if c = CHR 0x0A then [CHR 0x5C, CHR ''n'']
      else if c = CHR 0x0D then [CHR 0x5C, CHR ''r'']
      else if c = CHR 0x09 then [CHR 0x5C, CHR ''t'']
      else if \<not> digit5 c \<and> \<not> digit6 c \<and> \<not> digit7 c
        then [CHR 0x5C, CHR ''u'', CHR ''0'', CHR ''0'',
              hexDigit (of_char c div 16), hexDigit (of_char c mod 16)]
      else [c])"

definition quoteJSON :: "string \<Rightarrow> string" where
  "quoteJSON s = CHR 0x22 # concat (map escapeChar s) @ [CHR 0x22]"

fun JSON_stringify :: "json \<Rightarrow> string"
  and stringify_elements :: "json list \<Rightarrow> string"
  and stringify_members :: "(string \<times> json) list \<Rightarrow> string" where
  "JSON_stringify JNull = ''null''"
| "JSON_stringify (JBool b) = (if b then ''true'' else ''false'')"
| "JSON_stringify (JNum n) = (if n < 0 then CHR ''-'' # toDecimal (- n) else toDecimal n)"
| "JSON_stringify (JStr s) = quoteJSON s"
| "JSON_stringify (JArr xs) = ''['' @ stringify_elements xs @ '']''"
| "JSON_stringify (JObj ms) = ''{'' @ stringify_members ms @ ''}''"
| "stringify_elements [] = []"
| "stringify_elements [x] = JSON_stringify x"
| "stringify_elements (x # y # ys) = JSON_stringify x @ '','' @ stringify_elements (y # ys)"
| "stringify_members [] = []"
| "stringify_members [(k, v)] = quoteJSON k @ '':'' @ JSON_stringify v"
| "stringify_members ((k, v) # m # ms) =
     quoteJSON k @ '':'' @ JSON_stringify v @ '','' @ stringify_members (m # ms)"

section \<open>Control descriptors\<close>

text \<open>
  A control's value is what \<open>extractElementValue\<close> returns: the checked state of a checkbox
  or radio button, the value string of anything else.
\<close>

datatype cvalue = VBool bool | VStr string

text \<open>
  A descriptor as \<open>FormControlInspector\<close> builds it and as a decoded snapshot carries it.
  \<open>None\<close> stands for a property that is \<open>undefined\<close> or \<open>null\<close>; \<open>ctl_element\<close> refers to
  the live element and is absent from decoded snapshots. Attributes are in property order.
\<close>

record control =
  ctl_id :: string
  ctl_type :: string
  ctl_element :: "nat option"
  ctl_tagName :: "string option"
  ctl_name :: "string option"
  ctl_value :: cvalue
  ctl_attributes :: "(string \<times> string) list option"
  ctl_validators :: "string list"
  ctl_path :: "string option"
  ctl_metadata :: "(string \<times> json) list"

definition orEmpty :: "string option \<Rightarrow> string" where
  "orEmpty v = (case v of None \<Rightarrow> [] | Some s \<Rightarrow> s)"

definition attributesJson :: "(string \<times> string) list \<Rightarrow> json" where
  "attributesJson attrs = JObj (map (\<lambda>(k, v). (k, JStr v)) attrs)"

definition generateControlKey :: "control \<Rightarrow> string" where
  "generateControlKey control =
     (let parts = [orEmpty (ctl_name control),
                   orEmpty (ctl_tagName control),
                   orEmpty (ctl_path control),
                   JSON_stringify (attributesJson
                     (case ctl_attributes control of None \<Rightarrow> [] | Some a \<Rightarrow> a))]
      in join ''|'' (filter (\<lambda>part. part \<noteq> []) parts))"

definition emailControl :: "(string \<times> string) list \<Rightarrow> control" where
  "emailControl attrs =
     \<lparr>ctl_id = ''ctrl_1'', ctl_type = ''generic_form_control'', ctl_element = None,
      ctl_tagName = Some ''input'', ctl_name = Some ''email'', ctl_value = VStr ''a@b.com'',
      ctl_attributes = Some attrs, ctl_validators = [], ctl_path = Some ''form > input'',
      ctl_metadata = []\<rparr>"

section \<open>The page\<close>

text \<open>
  An element with the properties the extension reads or writes. \<open>el_ref\<close> is the element's
  identity (two descriptors refer to the same element when their references are equal);
  \<open>el_options\<close> lists a select's options as pairs of \<open>value\<close> and \<open>textContent\<close>.
  A property the element's interface does not have is \<open>None\<close>. \<open>el_svg\<close> marks an SVG
  element, whose \<open>className\<close> is an \<open>SVGAnimatedString\<close> object and not a string.
\<close>

record element =
  el_ref :: nat
  el_tagName :: string
  el_attributes :: "(string \<times> string) list"
  el_id :: string
  el_className :: string
  el_svg :: bool
  el_textContent :: string
  el_name :: "string option"
  el_type :: "string option"
  el_checked :: bool
  el_value :: "string option"
  el_disabled :: bool
  el_readOnly :: bool
  el_required :: bool
  el_placeholder :: string
  el_pattern :: string
  el_minLength :: int
  el_maxLength :: int
  el_min :: string
  el_max :: string
  el_options :: "(string \<times> string) list"
  el_selectedIndex :: int

datatype dom = Element element "dom list"

text \<open>A node is a subtree together with the chain of its ancestors, nearest first.\<close>

type_synonym node = "dom \<times> element list"

fun nodeElement :: "node \<Rightarrow> element" where
  "nodeElement (Element e cs, anc) = e"

fun nodes :: "element list \<Rightarrow> dom \<Rightarrow> node list" where
  "nodes anc (Element e cs) = (Element e cs, anc) # concat (map (nodes (e # anc)) cs)"

fun descendants :: "node \<Rightarrow> node list" where
  "descendants (Element e cs, anc) = concat (map (nodes (e # anc)) cs)"

definition allNodes :: "dom list \<Rightarrow> node list" where
  "allNodes document = concat (map (nodes []) document)"

text \<open>Attribute names of HTML elements are stored and looked up in lower case.\<close>

definition getAttribute :: "element \<Rightarrow> string \<Rightarrow> string option" where
  "getAttribute e name = map_of (el_attributes e) (toLowerCase name)"

definition hasAttribute :: "element \<Rightarrow> string \<Rightarrow> bool" where
  "hasAttribute e name = (getAttribute e name \<noteq> None)"

definition hasTag :: "string list \<Rightarrow> node \<Rightarrow> bool" where
  "hasTag tags n = (toLowerCase (el_tagName (nodeElement n)) \<in> set tags)"

fun split :: "char \<Rightarrow> string \<Rightarrow> string list" where
  "split sep [] = [[]]"
| "split sep (c # cs) =
     (if c = sep then [] # split sep cs
      else (case split sep cs of [] \<Rightarrow> [[c]] | p # ps \<Rightarrow> (c # p) # ps))"

definition isWhitespace :: "char \<Rightarrow> bool" where
  "isWhitespace c = (c \<in> set [CHR 0x09, CHR 0x0A, CHR 0x0B, CHR 0x0C, CHR 0x0D, CHR 0x20, CHR 0xA0])"

definition trim :: "string \<Rightarrow> string" where
  "trim s = rev (dropWhile isWhitespace (rev (dropWhile isWhitespace s)))"

section \<open>Objects as tables\<close>

text \<open>
  An object used as a table: properties whose name is an array index come first, in
  numeric order, the others follow in the order of their creation.
\<close>

definition isArrayIndex :: "string \<Rightarrow> bool" where
  "isArrayIndex k =
     (k \<noteq> [] \<and> (\<forall>c \<in> set k. c \<in> set ''0123456789'') \<and> (k = ''0'' \<or> hd k \<noteq> CHR ''0'') \<and>
      length k \<le> 10 \<and>
      foldl (\<lambda>n c. 10 * n + (of_char c - 48)) (0 :: int) k < 4294967295)"

definition indexValue :: "string \<Rightarrow> int" where
  "indexValue k = foldl (\<lambda>n c. 10 * n + (of_char c - 48)) (0 :: int) k"

fun insertProperty :: "string \<Rightarrow> 'a \<Rightarrow> (string \<times> 'a) list \<Rightarrow> (string \<times> 'a) list" where
  "insertProperty k v [] = [(k, v)]"
| "insertProperty k v ((k', v') # rest) =
     (if isArrayIndex k \<and> (\<not> isArrayIndex k' \<or> indexValue k < indexValue k')
      then (k, v) # (k', v') # rest
      else (k', v') # insertProperty k v rest)"

definition setProperty :: "string \<Rightarrow> 'a \<Rightarrow> (string \<times> 'a) list \<Rightarrow> (string \<times> 'a) list" where
  "setProperty k v obj =
     (if k \<in> fst ` set obj then map (\<lambda>(k', v'). if k' = k then (k', v) else (k', v')) obj
      else insertProperty k v obj)"

section \<open>Element paths\<close>

text \<open>
  \<open>FormControlInspector.generateElementPath\<close>: one selector per element from the control
  up to the root. The argument is the chain the \<open>parentElement\<close> walk visits: the element
  itself, then its ancestors. \<open>None\<close> is the \<open>TypeError\<close> of calling \<open>split\<close> on the
  \<open>className\<close> of an SVG element without an id.
\<close>

definition utilsSelector :: "element \<Rightarrow> string option" where
  "utilsSelector current =
     (let selector = toLowerCase (el_tagName current)
      in if el_id current \<noteq> [] then Some (selector @ ''#'' @ el_id current)
         else if el_svg current then None
         else if el_className current \<noteq> []
           then Some (selector @ ''.'' @ join ''.'' (split CHR '' '' (el_className current)))
         else Some selector)"

fun utilsPathLoop :: "element list \<Rightarrow> string list \<Rightarrow> string list option" where
  "utilsPathLoop [] path = Some path"
| "utilsPathLoop (current # rest) path =
     (case utilsSelector current of
        None \<Rightarrow> None
      | Some selector \<Rightarrow> utilsPathLoop rest (selector # path))"

definition FormControlInspector_pathParts :: "element list \<Rightarrow> string list option" where
  "FormControlInspector_pathParts chain = utilsPathLoop chain []"

definition FormControlInspector_generateElementPath :: "element list \<Rightarrow> string option" where
  "FormControlInspector_generateElementPath chain =
     map_option (join '' > '') (FormControlInspector_pathParts chain)"

text \<open>
  \<open>AngularFormInspector.generateElementPath\<close>: the same walk, left as soon as the path
  holds more than \<open>FORM_INSPECTOR_CONFIG.MAX_DEPTH\<close> selectors.
\<close>

definition MAX_DEPTH :: nat where
  "MAX_DEPTH = 10"

definition inspectorSelector :: "element \<Rightarrow> string option" where
  "inspectorSelector current =
     (let selector = toLowerCase (el_tagName current)
      in if el_id current \<noteq> [] then Some (selector @ ''#'' @ el_id current)
         else if el_svg current then None
         else if el_className current \<noteq> []
           then (let classes = filter (\<lambda>cls. trim cls \<noteq> []) (split CHR '' '' (el_className current))
                 in if length classes > 0 then Some (selector @ ''.'' @ join ''.'' classes)
                    else Some selector)
         else Some selector)"

fun inspectorPathLoop :: "element list \<Rightarrow> string list \<Rightarrow> string list option" where
  "inspectorPathLoop [] path = Some path"
| "inspectorPathLoop (current # rest) path =
     (case inspectorSelector current of
        None \<Rightarrow> None
      | Some selector \<Rightarrow>
          (let path' = selector # path
           in if length path' > MAX_DEPTH then Some path' else inspectorPathLoop rest path'))"

definition AngularFormInspector_pathParts :: "element list \<Rightarrow> string list option" where
  "AngularFormInspector_pathParts chain = inspectorPathLoop chain []"

definition AngularFormInspector_generateElementPath :: "element list \<Rightarrow> string option" where
  "AngularFormInspector_generateElementPath chain =
     map_option (join '' > '') (AngularFormInspector_pathParts chain)"

section \<open>Extraction\<close>

definition extractElementValue :: "element \<Rightarrow> cvalue" where
  "extractElementValue e =
     (if el_type e = Some ''checkbox'' \<or> el_type e = Some ''radio'' then VBool (el_checked e)
      else VStr (orEmpty (el_value e)))"

text \<open>
  \<open>extractElementAttributes\<close> copies the attributes, in their order, into a plain object.
\<close>

definition extractElementAttributes :: "element \<Rightarrow> (string \<times> string) list" where
  "extractElementAttributes e =
     foldl (\<lambda>attributes (name, v). setProperty name v attributes) [] (el_attributes e)"

definition intToString :: "int \<Rightarrow> string" where
  "intToString n = (if n < 0 then CHR ''-'' # toDecimal (- n) else toDecimal n)"

definition extractValidators :: "element \<Rightarrow> string list" where
  "extractValidators e =
     (if el_required e then [''required''] else []) @
     (if el_pattern e \<noteq> [] then [''pattern:'' @ el_pattern e] else []) @
     (if el_minLength e \<noteq> 0 then [''minLength:'' @ intToString (el_minLength e)] else []) @
     (if el_maxLength e \<noteq> 0 then [''maxLength:'' @ intToString (el_maxLength e)] else []) @
     (if el_min e \<noteq> [] then [''min:'' @ el_min e] else []) @
     (if el_max e \<noteq> [] then [''max:'' @ el_max e] else []) @
     (if el_type e = Some ''email'' then [''email''] else []) @
     (if el_type e = Some ''url'' then [''url''] else []) @
     (if el_type e = Some ''number'' then [''number''] else [])"

definition baseMetadata :: "element \<Rightarrow> (string \<times> json) list" where
  "baseMetadata e =
     [(''isDisabled'', JBool (el_disabled e)),
      (''isReadonly'', JBool (el_readOnly e)),
      (''isRequired'', JBool (el_required e)),
      (''placeholder'', JStr (el_placeholder e)),
      (''className'', (if el_svg e then JObj [] else JStr (el_className e)))]"

text \<open>
  The four extractors. \<open>ids\<close> gives the identifier \<open>generateControlId\<close> draws for an
  element in this pass (a time stamp and a random suffix in the source). An extractor
  returns \<open>None\<close> (\<open>null\<close> in the source) when building the descriptor throws, which
  happens when the path cannot be generated. The \<open>parentForm\<close>, \<open>formGroupName\<close> and
  \<open>materialFormField\<close> properties are left out: neither the encoder nor the restore reads
  them.
\<close>

definition controlData :: "(nat \<Rightarrow> string) \<Rightarrow> string \<Rightarrow> string option \<Rightarrow> node \<Rightarrow> control option" where
  "controlData ids type name n =
     (let e = nodeElement n in
      case FormControlInspector_generateElementPath (e # snd n) of
        None \<Rightarrow> None
      | Some path \<Rightarrow>
          Some \<lparr>ctl_id = ids (el_ref e), ctl_type = type, ctl_element = Some (el_ref e),
                ctl_tagName = Some (toLowerCase (el_tagName e)), ctl_name = name,
                ctl_value = extractElementValue e,
                ctl_attributes = Some (extractElementAttributes e),
                ctl_validators = extractValidators e,
                ctl_path = Some path,
                ctl_metadata = baseMetadata e\<rparr>)"

definition extractAngularFormControlData :: "(nat \<Rightarrow> string) \<Rightarrow> node \<Rightarrow> control option" where
  "extractAngularFormControlData ids n =
     controlData ids ''angular_form_control'' (getAttribute (nodeElement n) ''formControl'') n"

definition extractAngularFormControlNameData :: "(nat \<Rightarrow> string) \<Rightarrow> node \<Rightarrow> control option" where
  "extractAngularFormControlNameData ids n =
     controlData ids ''angular_form_control_name''
       (getAttribute (nodeElement n) ''formControlName'') n"

definition extractNgModelData :: "(nat \<Rightarrow> string) \<Rightarrow> node \<Rightarrow> control option" where
  "extractNgModelData ids n =
     controlData ids ''angular_ng_model''
       (case getAttribute (nodeElement n) ''ngModel'' of
          Some (c # cs) \<Rightarrow> Some (c # cs)
        | _ \<Rightarrow> el_name (nodeElement n)) n"

definition extractGenericFormControlData :: "(nat \<Rightarrow> string) \<Rightarrow> node \<Rightarrow> control option" where
  "extractGenericFormControlData ids n =
     (let e = nodeElement n in
      controlData ids ''generic_form_control''
        (Some (if orEmpty (el_name e) \<noteq> [] then orEmpty (el_name e) else el_id e)) n)"

definition firstText :: "string \<Rightarrow> node \<Rightarrow> string" where
  "firstText tag formField =
     (case find (hasTag [tag]) (descendants formField) of
        None \<Rightarrow> []
      | Some n \<Rightarrow> el_textContent (nodeElement n))"

definition extractMaterialFormControlData :: "(nat \<Rightarrow> string) \<Rightarrow> node \<Rightarrow> node \<Rightarrow> control option" where
  "extractMaterialFormControlData ids input formField =
     (let e = nodeElement input in
      map_option
        (\<lambda>extracted. extracted
           \<lparr>ctl_metadata := baseMetadata e @
              [(''matLabel'', JStr (firstText ''mat-label'' formField)),
               (''matHint'', JStr (firstText ''mat-hint'' formField)),
               (''matError'', JStr (firstText ''mat-error'' formField))]\<rparr>)
        (controlData ids ''material_form_control''
           (Some (case getAttribute e ''formControlName'' of
                    Some (c # cs) \<Rightarrow> c # cs
                  | _ \<Rightarrow> orEmpty (el_name e))) input))"

text \<open>\<open>if (controlData) controls.push(controlData)\<close> over the selected elements.\<close>

definition pushAll :: "('a \<Rightarrow> control option) \<Rightarrow> 'a list \<Rightarrow> control list" where
  "pushAll extract elements =
     concat (map (\<lambda>element. case extract element of None \<Rightarrow> [] | Some extracted \<Rightarrow> [extracted])
               elements)"

definition findAngularFormControls :: "(nat \<Rightarrow> string) \<Rightarrow> dom list \<Rightarrow> control list" where
  "findAngularFormControls ids document =
     pushAll (extractAngularFormControlData ids)
       (filter (\<lambda>n. hasAttribute (nodeElement n) ''formControl'') (allNodes document)) @
     pushAll (extractAngularFormControlNameData ids)
       (filter (\<lambda>n. hasAttribute (nodeElement n) ''formControlName'') (allNodes document)) @
     pushAll (extractNgModelData ids)
       (filter (\<lambda>n. hasAttribute (nodeElement n) ''ngModel'') (allNodes document))"

definition findGenericFormControls :: "(nat \<Rightarrow> string) \<Rightarrow> dom list \<Rightarrow> control list" where
  "findGenericFormControls ids document =
     pushAll (extractGenericFormControlData ids)
       (filter (\<lambda>n. \<not> (hasAttribute (nodeElement n) ''formControl'' \<or>
                       hasAttribute (nodeElement n) ''formControlName'' \<or>
                       hasAttribute (nodeElement n) ''ngModel''))
         (filter (hasTag [''input'', ''select'', ''textarea'']) (allNodes document)))"

definition findMaterialFormControls :: "(nat \<Rightarrow> string) \<Rightarrow> dom list \<Rightarrow> control list" where
  "findMaterialFormControls ids document =
     pushAll (\<lambda>formField.
         case find (hasTag [''input'', ''select'', ''textarea'', ''mat-select''])
                (descendants formField) of
           None \<Rightarrow> None
         | Some input \<Rightarrow> extractMaterialFormControlData ids input formField)
       (filter (hasTag [''mat-form-field'']) (allNodes document))"

text \<open>
  One pass of \<open>inspectAllFormControls\<close>: a candidate is pushed unless its element is in
  \<open>processedElements\<close> already. The state is the list built so far and the set.
\<close>

fun addControls :: "control list \<Rightarrow> control list \<times> nat option list \<Rightarrow> control list \<times> nat option list" where
  "addControls [] st = st"
| "addControls (control # rest) (formControls, processedElements) =
     (if ctl_element control \<in> set processedElements
      then addControls rest (formControls, processedElements)
      else addControls rest (formControls @ [control], processedElements @ [ctl_element control]))"

definition inspectAllFormControls :: "(nat \<Rightarrow> string) \<Rightarrow> dom list \<Rightarrow> control list" where
  "inspectAllFormControls ids document =
     (let st1 = addControls (findAngularFormControls ids document) ([], []);
          st2 = addControls (findGenericFormControls ids document) st1;
          st3 = addControls (findMaterialFormControls ids document) st2
      in fst st3)"

section \<open>Restoring\<close>

definition toBoolean :: "cvalue \<Rightarrow> bool" where
  "toBoolean v = (case v of VBool b \<Rightarrow> b | VStr s \<Rightarrow> s \<noteq> [])"

definition toString :: "cvalue \<Rightarrow> string" where
  "toString v = (case v of VBool b \<Rightarrow> (if b then ''true'' else ''false'') | VStr s \<Rightarrow> s)"

definition valueOrEmpty :: "cvalue \<Rightarrow> cvalue" where
  "valueOrEmpty v = (if toBoolean v then v else VStr [])"

fun findIndex :: "('a \<Rightarrow> bool) \<Rightarrow> 'a list \<Rightarrow> nat option" where
  "findIndex P [] = None"
| "findIndex P (x # xs) =
     (if P x then Some 0 else (case findIndex P xs of None \<Rightarrow> None | Some i \<Rightarrow> Some (Suc i)))"

text \<open>
  The assignment \<open>element.value = v\<close>. On a select the platform selects the first option
  whose value is \<open>v\<close> and deselects every option when there is none. On a file input only
  the empty string may be assigned: anything else throws an \<open>InvalidStateError\<close>, whose
  message is the \<open>Inl\<close> result. Elsewhere the string is stored; the sanitisation that other
  input types apply to the stored string is not modelled.
\<close>

definition fileValueError :: string where
  "fileValueError = ''This input element accepts a filename, which may only be programmatically set to the empty string.''"

definition assignValue :: "string \<Rightarrow> element \<Rightarrow> string + element" where
  "assignValue v e =
     (if toLowerCase (el_tagName e) = ''select''
      then (case findIndex (\<lambda>option. fst option = v) (el_options e) of
              None \<Rightarrow> Inr (e\<lparr>el_selectedIndex := - 1, el_value := Some []\<rparr>)
            | Some i \<Rightarrow> Inr (e\<lparr>el_selectedIndex := int i, el_value := Some v\<rparr>))
      else if el_type e = Some ''file'' \<and> v \<noteq> [] then Inl fileValueError
      else Inr (e\<lparr>el_value := Some v\<rparr>))"

text \<open>The assignment \<open>element.selectedIndex = i\<close> for the index of an existing option.\<close>

definition assignSelectedIndex :: "nat \<Rightarrow> element \<Rightarrow> element" where
  "assignSelectedIndex i e = e\<lparr>el_selectedIndex := int i, el_value := Some (fst (el_options e ! i))\<rparr>"

definition restoreSelectValue :: "element \<Rightarrow> cvalue \<Rightarrow> string + element" where
  "restoreSelectValue e v =
     (case findIndex (\<lambda>option. VStr (fst option) = v \<or> VStr (snd option) = v) (el_options e) of
        Some i \<Rightarrow> Inr (assignSelectedIndex i e)
      | None \<Rightarrow> Inl (''Option not found: '' @ toString v))"

text \<open>
  \<open>DOMUtils.triggerChangeEvent\<close> assigns the value once more and then dispatches the
  events; the events run the page's handlers, which are not part of the extension.
\<close>

definition triggerChangeEvent :: "element \<Rightarrow> cvalue \<Rightarrow> string + element" where
  "triggerChangeEvent e v =
     (if el_type e = Some ''checkbox'' \<or> el_type e = Some ''radio''
      then Inr (e\<lparr>el_checked := toBoolean v\<rparr>)
      else assignValue (toString v) e)"

text \<open>
  \<open>restoreMaterialValue\<close> clicks the matching \<open>mat-option\<close> of a \<open>mat-select\<close>; the click is
  handled by the page and changes no property of the element by itself.
\<close>

definition restoreMaterialValue :: "element \<Rightarrow> cvalue \<Rightarrow> element" where
  "restoreMaterialValue e v = e"

fun updateElement :: "nat \<Rightarrow> element \<Rightarrow> dom \<Rightarrow> dom" where
  "updateElement r e' (Element e cs) =
     Element (if el_ref e = r then e' else e) (map (updateElement r e') cs)"

definition lookupElement :: "dom list \<Rightarrow> nat option \<Rightarrow> element option" where
  "lookupElement document ref =
     (case ref of
        None \<Rightarrow> None
      | Some r \<Rightarrow> find (\<lambda>e. el_ref e = r) (map nodeElement (allNodes document)))"

text \<open>
  \<open>restoreControlValue\<close> returns the message of the error it throws, if any, and the page
  as the call leaves it: an assignment made before the error stays.
\<close>

definition restoreControlValue :: "dom list \<Rightarrow> control \<Rightarrow> control \<Rightarrow> string option \<times> dom list" where
  "restoreControlValue document currentControl snapshotControl =
     (let v = ctl_value snapshotControl in
      case lookupElement document (ctl_element currentControl) of
        None \<Rightarrow> (Some ''Control element not found'', document)
      | Some e \<Rightarrow>
          if el_readOnly e \<or> el_disabled e
          then (Some ''Control is readonly or disabled'', document)
          else
            (case (if el_type e = Some ''checkbox'' \<or> el_type e = Some ''radio''
                     then Inr (e\<lparr>el_checked := toBoolean v\<rparr>)
                   else if toLowerCase (el_tagName e) = ''select''
                     then restoreSelectValue e v
                   else assignValue (toString (valueOrEmpty v)) e) of
               Inl msg \<Rightarrow> (Some msg, document)
             | Inr e1 \<Rightarrow>
                 (case triggerChangeEvent e1 v of
                    Inl msg \<Rightarrow> (Some msg, map (updateElement (el_ref e) e1) document)
                  | Inr e2 \<Rightarrow>
                      (let e3 = (if ctl_type currentControl = ''material_form_control''
                                 then restoreMaterialValue e2 v else e2)
                       in (None, map (updateElement (el_ref e) e3) document)))))"






text \<open>
  What the loop does with one snapshot control on a given page and map: it is skipped,
  restored, or it fails with a message.
\<close>

datatype outcome = Restored | Skipped | Failed string









section \<open>The snapshot codec\<close>

definition VERSION :: string where
  "VERSION = ''1.0''"

definition SEPARATOR :: char where
  "SEPARATOR = CHR ''|''"

definition COMPRESSION_THRESHOLD :: nat where
  "COMPRESSION_THRESHOLD = 1024"

definition MAX_SNAPSHOT_SIZE :: nat where
  "MAX_SNAPSHOT_SIZE = 5 * 1024 * 1024"

definition MAX_FORM_CONTROLS :: nat where
  "MAX_FORM_CONTROLS = 1000"

text \<open>
  What the encoder reads from its surroundings: the clock, the page, and the platform
  services that may be missing. \<open>env_subtle\<close> is the SHA-256 digest of \<open>crypto.subtle\<close>,
  \<open>env_compressionStream\<close> and \<open>env_decompressionStream\<close> are the platform's gzip and its
  inverse, each on byte strings; \<open>None\<close> means the service does not exist.
\<close>

record environment =
  env_now :: int
  env_href :: string
  env_title :: string
  env_userAgent :: string
  env_subtle :: "(string \<Rightarrow> string) option"
  env_compressionStream :: "(string \<Rightarrow> string) option"
  env_decompressionStream :: "(string \<Rightarrow> string option) option"
  env_clipboardWritable :: bool
  env_storageReachable :: bool

subsection \<open>UTF-8\<close>

text \<open>
  \<open>TextEncoder.encode\<close> and \<open>unescape(encodeURIComponent(s))\<close>: a code unit below 0x80 is
  one byte, one from 0x80 to 0xFF is the two bytes \<open>110000xx 10xxxxxx\<close>.
\<close>

fun utf8Char :: "char \<Rightarrow> string" where
  "utf8Char (Char b0 b1 b2 b3 b4 b5 b6 b7) =
     (if b7 then [Char b6 True False False False False True True,
                  Char b0 b1 b2 b3 b4 b5 False True]
      else [Char b0 b1 b2 b3 b4 b5 b6 b7])"

definition utf8Encode :: "string \<Rightarrow> string" where
  "utf8Encode s = concat (map utf8Char s)"

text \<open>
  \<open>decodeURIComponent(escape(s))\<close>: \<open>None\<close> is the \<open>URIError\<close> for malformed UTF-8. A
  sequence that encodes a code point above 0xFF has no place in \<^typ>\<open>string\<close> and is
  rejected as well.
\<close>

fun utf8Decode :: "string \<Rightarrow> string option" where
  "utf8Decode [] = Some []"
| "utf8Decode [Char b0 b1 b2 b3 b4 b5 b6 b7] =
     (if b7 then None else Some [Char b0 b1 b2 b3 b4 b5 b6 b7])"
| "utf8Decode (Char b0 b1 b2 b3 b4 b5 b6 b7 # Char c0 c1 c2 c3 c4 c5 c6 c7 # rest) =
     (if \<not> b7 then map_option ((#) (Char b0 b1 b2 b3 b4 b5 b6 b7))
                      (utf8Decode (Char c0 c1 c2 c3 c4 c5 c6 c7 # rest))
      else if b6 \<and> b1 \<and> \<not> b2 \<and> \<not> b3 \<and> \<not> b4 \<and> \<not> b5 \<and> c7 \<and> \<not> c6
        then map_option ((#) (Char c0 c1 c2 c3 c4 c5 b0 True)) (utf8Decode rest)
      else None)"

subsection \<open>Base64\<close>

definition base64Alphabet :: string where
  "base64Alphabet = ''ABCDEFGHIJKLMNOPQRSTUVWXYZabcdefghijklmnopqrstuvwxyz0123456789+/''"

definition base64Char :: "nat \<Rightarrow> char" where
  "base64Char n = base64Alphabet ! n"

text \<open>\<open>btoa\<close> on a string of bytes.\<close>

fun btoa :: "string \<Rightarrow> string" where
  "btoa [] = []"
| "btoa [a] =
     (let x = (of_char a :: nat)
      in [base64Char (x div 4), base64Char (x mod 4 * 16), CHR ''='', CHR ''=''])"
| "btoa [a, b] =
     (let x = (of_char a :: nat); y = (of_char b :: nat)
      in [base64Char (x div 4), base64Char (x mod 4 * 16 + y div 16),
          base64Char (y mod 16 * 4), CHR ''=''])"
| "btoa (a # b # c # rest) =
     (let x = (of_char a :: nat); y = (of_char b :: nat); z = (of_char c :: nat)
      in [base64Char (x div 4), base64Char (x mod 4 * 16 + y div 16),
          base64Char (y mod 16 * 4 + z div 64), base64Char (z mod 64)] @ btoa rest)"

text \<open>
  \<open>atob\<close>, the forgiving decoder of the platform: white space is dropped, one or two
  padding characters are removed from an input whose length is a multiple of four, and the
  rest must be alphabet characters, not one more than a multiple of four of them. \<open>None\<close> is
  the \<open>InvalidCharacterError\<close>.
\<close>

definition base64Index :: "char \<Rightarrow> nat option" where
  "base64Index c = findIndex (\<lambda>d. d = c) base64Alphabet"

fun sextets :: "string \<Rightarrow> nat list option" where
  "sextets [] = Some []"
| "sextets (c # cs) =
     (case base64Index c of
        None \<Rightarrow> None
      | Some n \<Rightarrow> (case sextets cs of None \<Rightarrow> None | Some ns \<Rightarrow> Some (n # ns)))"

fun fromSextets :: "nat list \<Rightarrow> string option" where
  "fromSextets [] = Some []"
| "fromSextets [p] = None"
| "fromSextets [p, q] = Some [char_of (p * 4 + q div 16)]"
| "fromSextets [p, q, r] = Some [char_of (p * 4 + q div 16), char_of (q mod 16 * 16 + r div 4)]"
| "fromSextets (p # q # r # t # rest) =
     map_option (\<lambda>bytes. char_of (p * 4 + q div 16) # char_of (q mod 16 * 16 + r div 4) #
                           char_of (r mod 4 * 64 + t) # bytes)
       (fromSextets rest)"

definition isAsciiWhitespace :: "char \<Rightarrow> bool" where
  "isAsciiWhitespace c = (c \<in> set [CHR 0x09, CHR 0x0A, CHR 0x0C, CHR 0x0D, CHR 0x20])"

definition stripPadding :: "string \<Rightarrow> string" where
  "stripPadding s =
     (if length s mod 4 = 0 \<and> s \<noteq> [] \<and> last s = CHR ''=''
      then (if butlast s \<noteq> [] \<and> last (butlast s) = CHR ''='' then butlast (butlast s)
            else butlast s)
      else s)"

definition atob :: "string \<Rightarrow> string option" where
  "atob s =
     (case sextets (stripPadding (filter (\<lambda>c. \<not> isAsciiWhitespace c) s)) of
        None \<Rightarrow> None
      | Some ns \<Rightarrow> fromSextets ns)"

subsection \<open>Compression\<close>

text \<open>
  What \<open>compressData\<close> returns: the string itself, the bytes of the gzip stream (a
  \<open>Uint8Array\<close>), or the object of the dictionary fallback.
\<close>

datatype compressed =
    Text string
  | Bytes string
  | Dictionary "(string \<times> string) list" string

definition isWordChar :: "char \<Rightarrow> bool" where
  "isWordChar c =
     (c \<in> set ''ABCDEFGHIJKLMNOPQRSTUVWXYZabcdefghijklmnopqrstuvwxyz0123456789_'')"

text \<open>\<open>data.match(/\b\w+\b/g)\<close>: the maximal runs of word characters.\<close>

fun matchWords :: "string \<Rightarrow> string \<Rightarrow> string list" where
  "matchWords [] word = (if word = [] then [] else [word])"
| "matchWords (c # cs) word =
     (if isWordChar c then matchWords cs (word @ [c])
      else (if word = [] then [] else [word]) @ matchWords cs [])"

text \<open>
  \<open>wordCounts\<close> is a plain object: for a word that names a property inherited from
  \<open>Object.prototype\<close> the first "count" is that property plus one, a string, and no
  comparison with it holds, so such a word never enters the dictionary.
\<close>

definition inheritedNames :: "string list" where
  "inheritedNames =
     [''constructor'', ''toString'', ''valueOf'', ''hasOwnProperty'', ''isPrototypeOf'',
      ''propertyIsEnumerable'', ''toLocaleString'', ''__proto__'', ''__defineGetter__'',
      ''__defineSetter__'', ''__lookupGetter__'', ''__lookupSetter__'']"

definition countWords :: "string list \<Rightarrow> (string \<times> nat) list" where
  "countWords words =
     foldl (\<lambda>wordCounts word.
              setProperty word
                ((case map_of wordCounts word of None \<Rightarrow> 0 | Some n \<Rightarrow> n) + 1) wordCounts)
       [] words"

text \<open>\<open>result.replace(new RegExp('\\b' + word + '\\b', 'g'), token)\<close> for a word of word characters.\<close>

fun replaceWord :: "string \<Rightarrow> string \<Rightarrow> bool \<Rightarrow> string \<Rightarrow> string" where
  "replaceWord word token afterWordChar [] = []"
| "replaceWord word token afterWordChar (c # cs) =
     (if \<not> afterWordChar \<and> word \<noteq> [] \<and> take (length word) (c # cs) = word \<and>
         (case drop (length word) (c # cs) of [] \<Rightarrow> True | d # ds \<Rightarrow> \<not> isWordChar d)
      then token @ replaceWord word token True (drop (length word - 1) cs)
      else c # replaceWord word token (isWordChar c) cs)"

definition dictionaryToken :: "nat \<Rightarrow> string" where
  "dictionaryToken i = CHR 0xA7 # toDecimal (int i) @ [CHR 0xA7]"

definition dictionaryCompress :: "string \<Rightarrow> compressed" where
  "dictionaryCompress data =
     (let wordCounts = countWords (matchWords data []);
          frequent = filter (\<lambda>(word, count). count > 2 \<and> length word > 3 \<and>
                                              word \<notin> set inheritedNames) wordCounts;
          dictionary = foldl (\<lambda>d ((word, count), dictIndex).
                                 setProperty word (dictionaryToken dictIndex) d)
                         [] (zip frequent [0 ..< length frequent]);
          result = foldl (\<lambda>r (word, token). replaceWord word token False r) data dictionary
      in Dictionary dictionary result)"

definition compressData :: "environment \<Rightarrow> string \<Rightarrow> compressed" where
  "compressData env data =
     (if length data < COMPRESSION_THRESHOLD then Text data
      else (case env_compressionStream env of
              Some gzip \<Rightarrow> Bytes (gzip (utf8Encode data))
            | None \<Rightarrow> dictionaryCompress data))"

text \<open>\<open>result.replace(new RegExp(token, 'g'), word)\<close> for a token without special characters.\<close>

fun replaceAll :: "string \<Rightarrow> string \<Rightarrow> string \<Rightarrow> string" where
  "replaceAll token word [] = []"
| "replaceAll token word (c # cs) =
     (if token \<noteq> [] \<and> take (length token) (c # cs) = token
      then word @ replaceAll token word (drop (length token - 1) cs)
      else c # replaceAll token word cs)"

definition dictionaryDecompress :: "compressed \<Rightarrow> string + string" where
  "dictionaryDecompress c =
     (case c of
        Text s \<Rightarrow> Inr s
      | Dictionary dictionary data \<Rightarrow>
          Inr (foldl (\<lambda>result (word, token). replaceAll token word result) data dictionary)
      | Bytes bs \<Rightarrow> Inl ''Cannot convert undefined or null to object'')"

definition decompressData :: "environment \<Rightarrow> compressed \<Rightarrow> string + string" where
  "decompressData env c =
     (case c of
        Text s \<Rightarrow> Inr s
      | Bytes bs \<Rightarrow>
          (case env_decompressionStream env of
             Some gunzip \<Rightarrow>
               (case gunzip bs of
                  None \<Rightarrow> Inl ''The compressed data was not valid''
                | Some raw \<Rightarrow>
                    (case utf8Decode raw of
                       None \<Rightarrow> Inl ''The encoded data was not valid''
                     | Some s \<Rightarrow> Inr s))
           | None \<Rightarrow> dictionaryDecompress c)
      | Dictionary dictionary data \<Rightarrow> dictionaryDecompress c)"

subsection \<open>Text encoding and checksum\<close>

text \<open>\<open>JSON.stringify\<close> of what \<open>compressData\<close> returned, when it is not a string.\<close>

definition compressedJson :: "compressed \<Rightarrow> json" where
  "compressedJson c =
     (case c of
        Text s \<Rightarrow> JStr s
      | Bytes bs \<Rightarrow>
          JObj (map (\<lambda>(i, b). (toDecimal (int i), JNum (of_char b))) (zip [0 ..< length bs] bs))
      | Dictionary dictionary data \<Rightarrow>
          JObj [(''dictionary'', JObj (map (\<lambda>(word, token). (word, JStr token)) dictionary)),
                (''data'', JStr data)])"

fun stripTrailingPadding :: "string \<Rightarrow> string" where
  "stripTrailingPadding [] = []"
| "stripTrailingPadding (c # cs) =
     (let rest = stripTrailingPadding cs
      in if c = CHR ''='' \<and> rest = [] then [] else c # rest)"

definition encodeData :: "compressed \<Rightarrow> string" where
  "encodeData data =
     (let jsonString = (case data of Text s \<Rightarrow> s | _ \<Rightarrow> JSON_stringify (compressedJson data));
          base64 = btoa (utf8Encode jsonString)
      in stripTrailingPadding
           (map (\<lambda>c. if c = CHR ''/'' then CHR ''_'' else c)
              (map (\<lambda>c. if c = CHR ''+'' then CHR ''-'' else c) base64)))"

definition decodeData :: "string \<Rightarrow> string + string" where
  "decodeData encodedData =
     (let base64 = map (\<lambda>c. if c = CHR ''_'' then CHR ''/'' else c)
                     (map (\<lambda>c. if c = CHR ''-'' then CHR ''+'' else c) encodedData);
          padded = base64 @ replicate ((4 - length base64 mod 4) mod 4) CHR ''=''
      in case atob padded of
           None \<Rightarrow> Inl ''The string to be decoded is not correctly encoded.''
         | Some bytes \<Rightarrow>
             (case utf8Decode bytes of
                None \<Rightarrow> Inl ''URI malformed''
              | Some s \<Rightarrow> Inr s))"

definition padStart :: "nat \<Rightarrow> char \<Rightarrow> string \<Rightarrow> string" where
  "padStart n c s = replicate (n - length s) c @ s"

text \<open>The conversion of a number to a signed 32-bit integer that the bit operators apply.\<close>

definition toInt32 :: "int \<Rightarrow> int" where
  "toInt32 x = (x + 2 ^ 31) mod 2 ^ 32 - 2 ^ 31"

fun hashLoop :: "string \<Rightarrow> int \<Rightarrow> int" where
  "hashLoop [] hash = hash"
| "hashLoop (c # cs) hash = hashLoop cs (toInt32 (toInt32 (hash * 2 ^ 5) - hash + of_char c))"

definition calculateChecksum :: "environment \<Rightarrow> string \<Rightarrow> string" where
  "calculateChecksum env data =
     (case env_subtle env of
        Some digest \<Rightarrow>
          take 16 (concat (map (\<lambda>b. padStart 2 CHR ''0'' (toHex (of_char b)))
                             (digest (utf8Encode data))))
      | None \<Rightarrow> padStart 8 CHR ''0'' (toHex \<bar>hashLoop data 0\<bar>))"

subsection \<open>Parsing\<close>

text \<open>
  \<open>JSON.parse\<close>, by recursive descent. \<open>None\<close> is the \<open>SyntaxError\<close>. A number with a
  fraction or an exponent and an escape for a code unit above 0xFF have no value in
  \<^typ>\<open>json\<close> and are rejected too; members are kept in the order of the text. The first
  argument of the three mutually recursive functions bounds the number of nested calls.
\<close>

definition isJsonSpace :: "char \<Rightarrow> bool" where
  "isJsonSpace c = (c \<in> set [CHR 0x20, CHR 0x09, CHR 0x0A, CHR 0x0D])"

definition skipSpace :: "string \<Rightarrow> string" where
  "skipSpace s = dropWhile isJsonSpace s"

definition hexValue :: "char \<Rightarrow> nat option" where
  "hexValue c =
     (case findIndex (\<lambda>d. d = c) ''0123456789abcdef'' of
        Some n \<Rightarrow> Some n
      | None \<Rightarrow> map_option (\<lambda>n. n + 10) (findIndex (\<lambda>d. d = c) ''ABCDEF''))"

definition unescapeChar :: "char \<Rightarrow> char option" where
  "unescapeChar e =
     (if e = CHR 0x22 then Some (CHR 0x22)
      else if e = CHR 0x5C then Some (CHR 0x5C)
      else if e = CHR ''/'' then Some (CHR ''/'')
      else if e = CHR ''b'' then Some (CHR 0x08)
      else if e = CHR ''f'' then Some (CHR 0x0C)
      else if e = CHR ''n'' then Some (CHR 0x0A)
      else if e = CHR ''r'' then Some (CHR 0x0D)
      else if e = CHR ''t'' then Some (CHR 0x09)
      else None)"

definition consChar :: "char \<Rightarrow> (string \<times> string) option \<Rightarrow> (string \<times> string) option" where
  "consChar c r = (case r of None \<Rightarrow> None | Some (s, rest) \<Rightarrow> Some (c # s, rest))"

fun parseChars :: "string \<Rightarrow> (string \<times> string) option"
  and parseEscape :: "string \<Rightarrow> (string \<times> string) option"
  and parseUnicode :: "string \<Rightarrow> (string \<times> string) option" where
  "parseChars [] = None"
| "parseChars (c # cs) =
     (if c = CHR 0x22 then Some ([], cs)
      else if c = CHR 0x5C then parseEscape cs
      else if \<not> digit5 c \<and> \<not> digit6 c \<and> \<not> digit7 c then None
      else consChar c (parseChars cs))"
| "parseEscape [] = None"
| "parseEscape (e # es) =
     (if e = CHR ''u'' then parseUnicode es
      else (case unescapeChar e of None \<Rightarrow> None | Some c \<Rightarrow> consChar c (parseChars es)))"
| "parseUnicode (h1 # h2 # h3 # h4 # rest) =
     (case (hexValue h1, hexValue h2, hexValue h3, hexValue h4) of
        (Some a, Some b, Some c, Some d) \<Rightarrow>
          (if a = 0 \<and> b = 0 then consChar (char_of (c * 16 + d)) (parseChars rest) else None)
      | _ \<Rightarrow> None)"
| "parseUnicode _ = None"

definition isDigit :: "char \<Rightarrow> bool" where
  "isDigit c = (c \<in> set ''0123456789'')"

definition digitsValue :: "string \<Rightarrow> int" where
  "digitsValue ds = foldl (\<lambda>n c. 10 * n + (of_char c - 48)) 0 ds"

definition parseNumber :: "string \<Rightarrow> (json \<times> string) option" where
  "parseNumber cs =
     (let negative = (cs \<noteq> [] \<and> hd cs = CHR ''-'');
          body = (if negative then tl cs else cs);
          ds = takeWhile isDigit body;
          rest = dropWhile isDigit body
      in if ds = [] \<or> (length ds > 1 \<and> hd ds = CHR ''0'') then None
         else if rest \<noteq> [] \<and> hd rest \<in> set ''.eE'' then None
         else Some (JNum (if negative then - digitsValue ds else digitsValue ds), rest))"

fun parseValue :: "nat \<Rightarrow> string \<Rightarrow> (json \<times> string) option"
  and parseElements :: "nat \<Rightarrow> string \<Rightarrow> (json list \<times> string) option"
  and parseMembers :: "nat \<Rightarrow> string \<Rightarrow> ((string \<times> json) list \<times> string) option" where
  "parseValue 0 cs = None"
| "parseValue (Suc n) cs =
     (case skipSpace cs of
        [] \<Rightarrow> None
      | c # rest \<Rightarrow>
          if c = CHR ''{'' then
            (case skipSpace rest of
               [] \<Rightarrow> None
             | d # rest' \<Rightarrow>
                 if d = CHR ''}'' then Some (JObj [], rest')
                 else (case parseMembers n rest of
                         None \<Rightarrow> None
                       | Some (ms, r) \<Rightarrow> Some (JObj ms, r)))
          else if c = CHR ''['' then
            (case skipSpace rest of
               [] \<Rightarrow> None
             | d # rest' \<Rightarrow>
                 if d = CHR '']'' then Some (JArr [], rest')
                 else (case parseElements n rest of
                         None \<Rightarrow> None
                       | Some (vs, r) \<Rightarrow> Some (JArr vs, r)))
          else if c = CHR 0x22 then
            (case parseChars rest of None \<Rightarrow> None | Some (s, r) \<Rightarrow> Some (JStr s, r))
          else if take 4 (c # rest) = ''null'' then Some (JNull, drop 3 rest)
          else if take 4 (c # rest) = ''true'' then Some (JBool True, drop 3 rest)
          else if take 5 (c # rest) = ''false'' then Some (JBool False, drop 4 rest)
          else parseNumber (c # rest))"
| "parseElements 0 cs = None"
| "parseElements (Suc n) cs =
     (case parseValue n cs of
        None \<Rightarrow> None
      | Some (v, r) \<Rightarrow>
          (case skipSpace r of
             [] \<Rightarrow> None
           | c # r' \<Rightarrow>
               if c = CHR '','' then
                 (case parseElements n r' of
                    None \<Rightarrow> None
                  | Some (vs, r'') \<Rightarrow> Some (v # vs, r''))
               else if c = CHR '']'' then Some ([v], r')
               else None))"
| "parseMembers 0 cs = None"
| "parseMembers (Suc n) cs =
     (case skipSpace cs of
        [] \<Rightarrow> None
      | q # r \<Rightarrow>
          if q \<noteq> CHR 0x22 then None
          else (case parseChars r of
                  None \<Rightarrow> None
                | Some (k, r1) \<Rightarrow>
                    (case skipSpace r1 of
                       [] \<Rightarrow> None
                     | colon # r2 \<Rightarrow>
                         if colon \<noteq> CHR '':'' then None
                         else (case parseValue n r2 of
                                 None \<Rightarrow> None
                               | Some (v, r3) \<Rightarrow>
                                   (case skipSpace r3 of
                                      [] \<Rightarrow> None
                                    | c # r4 \<Rightarrow>
                                        if c = CHR '','' then
                                          (case parseMembers n r4 of
                                             None \<Rightarrow> None
                                           | Some (ms, r5) \<Rightarrow> Some ((k, v) # ms, r5))
                                        else if c = CHR ''}'' then Some ([(k, v)], r4)
                                        else None)))))"

definition JSON_parse :: "string \<Rightarrow> json option" where
  "JSON_parse text =
     (case parseValue (2 * length text + 2) text of
        None \<Rightarrow> None
      | Some (v, rest) \<Rightarrow> if skipSpace rest = [] then Some v else None)"

subsection \<open>Encoding and decoding a snapshot\<close>

definition valueJson :: "cvalue \<Rightarrow> json" where
  "valueJson v = (case v of VBool b \<Rightarrow> JBool b | VStr s \<Rightarrow> JStr s)"

text \<open>A property that is \<open>undefined\<close> is left out by \<open>JSON.stringify\<close>.\<close>

definition optionalMember :: "string \<Rightarrow> json option \<Rightarrow> (string \<times> json) list" where
  "optionalMember k v = (case v of None \<Rightarrow> [] | Some j \<Rightarrow> [(k, j)])"

definition controlJson :: "control \<Rightarrow> json" where
  "controlJson ctrl =
     JObj ([(''id'', JStr (ctl_id ctrl)), (''type'', JStr (ctl_type ctrl))] @
           optionalMember ''name'' (map_option JStr (ctl_name ctrl)) @
           [(''value'', valueJson (ctl_value ctrl))] @
           optionalMember ''path'' (map_option JStr (ctl_path ctrl)) @
           optionalMember ''tagName'' (map_option JStr (ctl_tagName ctrl)) @
           optionalMember ''attributes'' (map_option attributesJson (ctl_attributes ctrl)) @
           [(''validators'', JArr (map JStr (ctl_validators ctrl))),
            (''metadata'', JObj (ctl_metadata ctrl))])"

definition snapshotJson :: "environment \<Rightarrow> control list \<Rightarrow> json" where
  "snapshotJson env formControls =
     JObj [(''version'', JStr VERSION),
           (''timestamp'', JNum (env_now env)),
           (''url'', JStr (env_href env)),
           (''title'', JStr (env_title env)),
           (''userAgent'', JStr (env_userAgent env)),
           (''formControls'', JArr (map controlJson formControls))]"

text \<open>
  \<open>encodeFormData\<close>. None of its steps fails on the values modelled here, so the handler
  that rethrows an error as \<open>Data encoding failed\<close> has no branch.
\<close>

definition encodeFormData :: "environment \<Rightarrow> control list \<Rightarrow> string" where
  "encodeFormData env formControls =
     (let jsonString = JSON_stringify (snapshotJson env formControls);
          compressed = compressData env jsonString;
          encoded = encodeData compressed;
          checksum = calculateChecksum env encoded
      in VERSION @ [SEPARATOR] @ checksum @ [SEPARATOR] @ encoded)"

text \<open>\<open>decodeFormData\<close> returns the message of the error it throws, or the parsed value.\<close>

definition decodeFormData :: "environment \<Rightarrow> string \<Rightarrow> string + json" where
  "decodeFormData env encodedData =
     (let parts = split SEPARATOR encodedData
      in if length parts \<noteq> 3 then Inl ''Data decoding failed: Invalid encoded data format''
         else
           (let version = parts ! 0; checksum = parts ! 1; data = parts ! 2
            in if version \<noteq> VERSION
               then Inl (''Data decoding failed: Unsupported version: '' @ version)
               else if checksum \<noteq> calculateChecksum env data
               then Inl ''Data decoding failed: Data integrity check failed''
               else
                 (case decodeData data of
                    Inl msg \<Rightarrow> Inl (''Data decoding failed: '' @ msg)
                  | Inr decoded \<Rightarrow>
                      (case decompressData env (Text decoded) of
                         Inl msg \<Rightarrow> Inl (''Data decoding failed: '' @ msg)
                       | Inr decompressed \<Rightarrow>
                           (case JSON_parse decompressed of
                              None \<Rightarrow> Inl ''Data decoding failed: Unexpected token''
                            | Some snapshot \<Rightarrow> Inr snapshot)))))"

text \<open>
  \<open>captureForms\<close> returns the message of the error it throws, or the number of controls
  and the token. The two flags are the options \<open>copyToClipboard\<close> and \<open>saveToStorage\<close>.
\<close>

definition captureForms :: "environment \<Rightarrow> (nat \<Rightarrow> string) \<Rightarrow> dom list \<Rightarrow> bool \<Rightarrow> bool \<Rightarrow>
    string + nat \<times> string" where
  "captureForms env ids document copyToClipboard saveToStorage =
     (let formControls = inspectAllFormControls ids document
      in if length formControls = 0 then Inl ''No form controls found on the page''
         else if length formControls > MAX_FORM_CONTROLS
         then Inl (''Too many form controls detected ('' @ toDecimal (int (length formControls)) @
                   ''). Maximum allowed: '' @ toDecimal (int MAX_FORM_CONTROLS))
         else
           (let encodedSnapshot = encodeFormData env formControls
            in if copyToClipboard \<and> \<not> env_clipboardWritable env
               then Inl ''Failed to copy to clipboard''
               else if saveToStorage \<and> \<not> env_storageReachable env
               then Inl ''Could not establish connection. Receiving end does not exist.''
               else Inr (length formControls, encodedSnapshot)))"

text \<open>
  Example surroundings: a page served over plain HTTP, where \<open>crypto.subtle\<close> does not
  exist, and stand-ins for the platform's gzip and its inverse.
\<close>

definition insecureEnv :: "int \<Rightarrow> environment" where
  "insecureEnv now =
     \<lparr>env_now = now, env_href = ''http://localhost:4200/signup'', env_title = ''Sign up'',
      env_userAgent = ''Mozilla/5.0'', env_subtle = None,
      env_compressionStream = Some (\<lambda>bytes. [CHR 0x1F, CHR 0x8B, CHR 0x08]),
      env_decompressionStream = Some (\<lambda>bytes. None),
      env_clipboardWritable = True, env_storageReachable = True\<rparr>"

section \<open>Example pages\<close>

definition blankElement :: "nat \<Rightarrow> string \<Rightarrow> (string \<times> string) list \<Rightarrow> element" where
  "blankElement ref tag attrs =
     \<lparr>el_ref = ref, el_tagName = tag, el_attributes = attrs, el_id = [], el_className = [],
      el_svg = False, el_textContent = [], el_name = None, el_type = None, el_checked = False,
      el_value = None, el_disabled = False, el_readOnly = False, el_required = False,
      el_placeholder = [], el_pattern = [], el_minLength = 0, el_maxLength = 0,
      el_min = [], el_max = [], el_options = [], el_selectedIndex = - 1\<rparr>"

definition fieldElement :: "nat \<Rightarrow> string \<Rightarrow> string \<Rightarrow> string \<Rightarrow> (string \<times> string) list \<Rightarrow> element" where
  "fieldElement ref tag type name attrs =
     (blankElement ref tag attrs)
       \<lparr>el_name := Some name, el_type := Some type, el_value := Some [],
        el_minLength := - 1, el_maxLength := - 1\<rparr>"

text \<open>
  A form with a reactive input that also carries \<open>ngModel\<close>, a checkbox, a Material field
  around a plain input, a select and a disabled text area.
\<close>

definition emailInput :: element where
  "emailInput =
     (fieldElement 3 ''INPUT'' ''text'' [] [(''formcontrolname'', ''email''), (''ngmodel'', [])])
       \<lparr>el_value := Some ''a@b.com''\<rparr>"

definition subscribeInput :: element where
  "subscribeInput =
     (fieldElement 4 ''INPUT'' ''checkbox'' ''subscribe''
        [(''type'', ''checkbox''), (''name'', ''subscribe'')])
       \<lparr>el_checked := True, el_value := Some ''on''\<rparr>"

definition cityInput :: element where
  "cityInput =
     (fieldElement 6 ''INPUT'' ''text'' ''city'' [(''name'', ''city'')])\<lparr>el_value := Some ''Hue''\<rparr>"

definition planSelect :: element where
  "planSelect =
     (fieldElement 7 ''SELECT'' ''select-one'' ''plan'' [(''name'', ''plan'')])
       \<lparr>el_value := Some ''1'', el_options := [(''1'', ''Basic''), (''2'', ''Pro'')],
        el_selectedIndex := 0, el_minLength := 0, el_maxLength := 0\<rparr>"

definition notesArea :: element where
  "notesArea =
     (fieldElement 8 ''TEXTAREA'' ''textarea'' ''notes'' [(''name'', ''notes''), (''disabled'', [])])
       \<lparr>el_disabled := True, el_value := Some ''old''\<rparr>"

definition formPage :: "dom list" where
  "formPage =
     [Element (blankElement 0 ''HTML'' [])
        [Element (blankElement 1 ''BODY'' [])
           [Element ((blankElement 2 ''FORM'' [(''id'', ''signup'')])\<lparr>el_id := ''signup''\<rparr>)
              [Element emailInput [],
               Element subscribeInput [],
               Element (blankElement 5 ''MAT-FORM-FIELD'' []) [Element cityInput []],
               Element planSelect [],
               Element notesArea []]]]]"

definition pageIds :: "nat \<Rightarrow> string" where
  "pageIds r = ''ctrl_1700000000000_'' @ toDecimal (int r)"

text \<open>The descriptor of the select of the form.\<close>

definition planControl :: control where
  "planControl = inspectAllFormControls pageIds formPage ! 3"


text \<open>A control nested below eleven \<open>div\<close> elements.\<close>

definition deepChain :: "element list" where
  "deepChain = cityInput # replicate 11 (blankElement 9 ''DIV'' [])"

section \<open>Match keys\<close>

lemma toDecimal_nonempty: "toDecimal n \<noteq> []"
  by (subst toDecimal.simps) simp

lemma JSON_stringify_nonempty: "JSON_stringify j \<noteq> []"
  by (cases j) (simp_all add: quoteJSON_def toDecimal_nonempty)

lemma generateControlKey_cong:
  "ctl_name a = ctl_name b \<Longrightarrow> ctl_tagName a = ctl_tagName b \<Longrightarrow> ctl_path a = ctl_path b \<Longrightarrow>
   ctl_attributes a = ctl_attributes b \<Longrightarrow> generateControlKey a = generateControlKey b"
  by (simp add: generateControlKey_def)

lemma generateControlKey_parts:
  "generateControlKey a =
     concat (map (\<lambda>part. part @ ''|'')
               (filter (\<lambda>part. part \<noteq> [])
                  [orEmpty (ctl_name a), orEmpty (ctl_tagName a), orEmpty (ctl_path a)])) @
     JSON_stringify (attributesJson (case ctl_attributes a of None \<Rightarrow> [] | Some attrs \<Rightarrow> attrs))"
  by (simp add: generateControlKey_def Let_def JSON_stringify_nonempty)

lemma generateControlKey_full:
  "ctl_name a = Some n \<Longrightarrow> ctl_tagName a = Some t \<Longrightarrow> ctl_path a = Some p \<Longrightarrow>
   ctl_attributes a = Some attrs \<Longrightarrow> n \<noteq> [] \<Longrightarrow> t \<noteq> [] \<Longrightarrow> p \<noteq> [] \<Longrightarrow>
   generateControlKey a = n @ ''|'' @ t @ ''|'' @ p @ ''|'' @ JSON_stringify (attributesJson attrs)"
  by (simp add: generateControlKey_def orEmpty_def JSON_stringify_nonempty)

lemma controlData_key:
  "map_option generateControlKey (controlData ids type name nd) =
   map_option generateControlKey (controlData ids' type name nd)"
  by (auto simp: controlData_def Let_def split: option.splits intro!: generateControlKey_cong)

text \<open>
  C4, as the claim states it, fails: the attributes are rendered in property order, not
  sorted by key, so two descriptors that differ only in the order of their attributes get
  different keys.
\<close>

theorem generateControlKey_attribute_order_counterexample:
  "generateControlKey (emailControl [(''type'', ''email''), (''name'', ''email'')])
     \<noteq> generateControlKey (emailControl [(''name'', ''email''), (''type'', ''email'')])"
  by (simp add: generateControlKey_def emailControl_def orEmpty_def attributesJson_def
      quoteJSON_def escapeChar_def)

text \<open>
  C4 (amended): \<open>generateControlKey\<close> is a total function of the descriptor's name, tag name,
  path and attribute list alone. The key is, in this order, each of name, tag name and path
  that is not empty, followed by \<open>|\<close>, and then the rendering of the attributes in their
  property order (of the empty object when there are none); a part that is missing or empty
  leaves no trace, not even its separator. In particular, when all three are present the
  key is name, tag name, path and attributes joined by \<open>|\<close>. Two descriptors extracted from
  the same unchanged element in two passes, whatever identifiers the passes draw, have the
  same key.
\<close>

theorem generateControlKey_composite:
  "(ctl_name a = ctl_name b \<and> ctl_tagName a = ctl_tagName b \<and> ctl_path a = ctl_path b \<and>
      ctl_attributes a = ctl_attributes b \<longrightarrow> generateControlKey a = generateControlKey b) \<and>
   generateControlKey a =
     concat (map (\<lambda>part. part @ ''|'')
               (filter (\<lambda>part. part \<noteq> [])
                  [orEmpty (ctl_name a), orEmpty (ctl_tagName a), orEmpty (ctl_path a)])) @
     JSON_stringify (attributesJson (case ctl_attributes a of None \<Rightarrow> [] | Some attrs \<Rightarrow> attrs)) \<and>
   (ctl_name a = Some n \<and> ctl_tagName a = Some t \<and> ctl_path a = Some p \<and>
      ctl_attributes a = Some attrs \<and> n \<noteq> [] \<and> t \<noteq> [] \<and> p \<noteq> [] \<longrightarrow>
      generateControlKey a =
        n @ ''|'' @ t @ ''|'' @ p @ ''|'' @ JSON_stringify (attributesJson attrs)) \<and>
   map_option generateControlKey (controlData ids type name nd) =
     map_option generateControlKey (controlData ids' type name nd)"
proof (intro conjI impI)
  assume "ctl_name a = ctl_name b \<and> ctl_tagName a = ctl_tagName b \<and> ctl_path a = ctl_path b \<and>
      ctl_attributes a = ctl_attributes b"
  then show "generateControlKey a = generateControlKey b"
    by (intro generateControlKey_cong) simp_all
next
  show "generateControlKey a =
     concat (map (\<lambda>part. part @ ''|'')
               (filter (\<lambda>part. part \<noteq> [])
                  [orEmpty (ctl_name a), orEmpty (ctl_tagName a), orEmpty (ctl_path a)])) @
     JSON_stringify (attributesJson (case ctl_attributes a of None \<Rightarrow> [] | Some attrs \<Rightarrow> attrs))"
    by (rule generateControlKey_parts)
next
  assume "ctl_name a = Some n \<and> ctl_tagName a = Some t \<and> ctl_path a = Some p \<and>
      ctl_attributes a = Some attrs \<and> n \<noteq> [] \<and> t \<noteq> [] \<and> p \<noteq> []"
  then show "generateControlKey a =
        n @ ''|'' @ t @ ''|'' @ p @ ''|'' @ JSON_stringify (attributesJson attrs)"
    by (intro generateControlKey_full) simp_all
next
  show "map_option generateControlKey (controlData ids type name nd) =
     map_option generateControlKey (controlData ids' type name nd)"
    by (rule controlData_key)
qed

theorem generateControlKey_composite_witness:
  "generateControlKey (emailControl [(''type'', ''email'')]) =
     generateControlKey ((emailControl [(''type'', ''email'')])\<lparr>ctl_id := ''ctrl_2''\<rparr>) \<and>
   generateControlKey (emailControl [(''type'', ''email'')]) =
     ''email'' @ ''|'' @ ''input'' @ ''|'' @ ''form > input'' @ ''|'' @
       JSON_stringify (attributesJson [(''type'', ''email'')]) \<and>
   generateControlKey ((emailControl [(''type'', ''email'')])\<lparr>ctl_name := None\<rparr>) =
     ''input|form > input|{\"type\":\"email\"}''"
proof -
  let ?a = "emailControl [(''type'', ''email'')]"
  let ?b = "(emailControl [(''type'', ''email'')])\<lparr>ctl_id := ''ctrl_2''\<rparr>"
  let ?u = "(emailControl [(''type'', ''email'')])\<lparr>ctl_name := None\<rparr>"
  have h1: "ctl_name ?a = ctl_name ?b \<and> ctl_tagName ?a = ctl_tagName ?b \<and>
      ctl_path ?a = ctl_path ?b \<and> ctl_attributes ?a = ctl_attributes ?b"
    by (simp add: emailControl_def)
  have h2: "ctl_name ?a = Some ''email'' \<and> ctl_tagName ?a = Some ''input'' \<and>
      ctl_path ?a = Some ''form > input'' \<and> ctl_attributes ?a = Some [(''type'', ''email'')] \<and>
      ''email'' \<noteq> [] \<and> ''input'' \<noteq> [] \<and> ''form > input'' \<noteq> []"
    by (simp add: emailControl_def)
  from generateControlKey_composite
    [of ?a ?b "''email''" "''input''" "''form > input''" "[(''type'', ''email'')]"
        pageIds "''t''" None "(Element emailInput [], [])" pageIds] h1 h2
  have k: "generateControlKey ?a = generateControlKey ?b \<and>
     generateControlKey ?a =
       ''email'' @ ''|'' @ ''input'' @ ''|'' @ ''form > input'' @ ''|'' @
         JSON_stringify (attributesJson [(''type'', ''email'')])"
    by blast
  from generateControlKey_composite
    [of ?u ?u "''email''" "''input''" "''form > input''" "[(''type'', ''email'')]"
        pageIds "''t''" None "(Element emailInput [], [])" pageIds]
  have "generateControlKey ?u =
     concat (map (\<lambda>part. part @ ''|'')
               (filter (\<lambda>part. part \<noteq> [])
                  [orEmpty (ctl_name ?u), orEmpty (ctl_tagName ?u), orEmpty (ctl_path ?u)])) @
     JSON_stringify (attributesJson (case ctl_attributes ?u of None \<Rightarrow> [] | Some attrs \<Rightarrow> attrs))"
    by blast
  then have u: "generateControlKey ?u = ''input|form > input|{\"type\":\"email\"}''"
    by (simp add: emailControl_def orEmpty_def attributesJson_def quoteJSON_def escapeChar_def)
  from k u show ?thesis by blast
qed

section \<open>Path depth\<close>

lemma inspectorPathLoop_bound:
  "length path \<le> MAX_DEPTH \<Longrightarrow> inspectorPathLoop chain path = Some parts \<Longrightarrow>
   length parts \<le> MAX_DEPTH + 1"
proof (induction chain arbitrary: path)
  case Nil
  then show ?case by simp
next
  case (Cons a chain)
  from Cons.prems(2) obtain selector where s: "inspectorSelector a = Some selector"
    by (cases "inspectorSelector a") auto
  show ?case
  proof (cases "length (selector # path) > MAX_DEPTH")
    case True
    with Cons.prems s show ?thesis by (auto simp: Let_def)
  next
    case False
    then have l: "length (selector # path) \<le> MAX_DEPTH" by simp
    from False Cons.prems(2) s have "inspectorPathLoop chain (selector # path) = Some parts"
      by (simp add: Let_def)
    from Cons.IH [OF l this] show ?thesis .
  qed
qed

lemma AngularFormInspector_pathParts_bound:
  "AngularFormInspector_pathParts chain = Some parts \<Longrightarrow> length parts \<le> MAX_DEPTH + 1"
  using inspectorPathLoop_bound [of "[]" chain parts]
  by (simp add: AngularFormInspector_pathParts_def)

lemma utilsPathLoop_length:
  "utilsPathLoop chain path = Some parts \<Longrightarrow> length parts = length chain + length path"
  by (induction chain arbitrary: path) (auto split: option.splits)

lemma FormControlInspector_pathParts_length:
  "FormControlInspector_pathParts chain = Some parts \<Longrightarrow> length parts = length chain"
  using utilsPathLoop_length [of chain "[]" parts]
  by (simp add: FormControlInspector_pathParts_def)

text \<open>
  C9: the path generator of \<open>AngularFormInspector\<close> stops after the element and ten
  ancestors, the one of \<open>FormControlInspector\<close>, which builds the descriptors that are
  captured and restored, does not stop: for a control below eleven ancestors it yields
  twelve selectors where the other yields eleven.
\<close>

theorem FormControlInspector_path_not_truncated:
  "map_option length (FormControlInspector_pathParts deepChain) = Some 12 \<and>
   map_option length (AngularFormInspector_pathParts deepChain) = Some 11 \<and>
   FormControlInspector_generateElementPath deepChain =
     Some ''div > div > div > div > div > div > div > div > div > div > div > input''"
  by code_simp

section \<open>One descriptor per element\<close>

lemma find_append_case:
  "find P (xs @ ys) = (case find P xs of None \<Rightarrow> find P ys | Some x \<Rightarrow> Some x)"
  by (induction xs) auto

lemma addControls_append: "addControls (xs @ ys) st = addControls ys (addControls xs st)"
  by (induction xs st rule: addControls.induct) auto

lemma addControls_snd:
  "snd (addControls cs (fs, map ctl_element fs)) =
   map ctl_element (fst (addControls cs (fs, map ctl_element fs)))"
proof (induction cs arbitrary: fs)
  case Nil
  show ?case by simp
next
  case (Cons a cs)
  show ?case using Cons.IH [of fs] Cons.IH [of "fs @ [a]"] by simp
qed

lemma addControls_distinct:
  "distinct (map ctl_element fs) \<Longrightarrow>
   distinct (map ctl_element (fst (addControls cs (fs, map ctl_element fs))))"
proof (induction cs arbitrary: fs)
  case Nil
  then show ?case by simp
next
  case (Cons a cs)
  show ?case using Cons.IH [of fs] Cons.IH [of "fs @ [a]"] Cons.prems by simp
qed

lemma addControls_elements:
  "set (map ctl_element (fst (addControls cs (fs, map ctl_element fs)))) =
   set (map ctl_element fs) \<union> set (map ctl_element cs)"
proof (induction cs arbitrary: fs)
  case Nil
  then show ?case by simp
next
  case (Cons a cs)
  show ?case using Cons.IH [of fs] Cons.IH [of "fs @ [a]"] by auto
qed

lemma addControls_first:
  "distinct (map ctl_element fs) \<Longrightarrow>
   c \<in> set (fst (addControls cs (fs, map ctl_element fs))) \<Longrightarrow>
   find (\<lambda>d. ctl_element d = ctl_element c) (fs @ cs) = Some c"
proof (induction cs arbitrary: fs)
  case Nil
  then show ?case
    by (induction fs) auto
next
  case (Cons a cs)
  show ?case
  proof (cases "ctl_element a \<in> set (map ctl_element fs)")
    case True
    with Cons.prems have "c \<in> set (fst (addControls cs (fs, map ctl_element fs)))" by simp
    from Cons.IH [OF Cons.prems(1) this]
    have f: "find (\<lambda>d. ctl_element d = ctl_element c) (fs @ cs) = Some c" .
    show ?thesis
    proof (cases "find (\<lambda>d. ctl_element d = ctl_element c) fs")
      case None
      then have "ctl_element c \<notin> set (map ctl_element fs)"
        by (auto simp: find_None_iff)
      with True have "ctl_element a \<noteq> ctl_element c" by auto
      with f None show ?thesis by (simp add: find_append_case)
    next
      case (Some x)
      with f show ?thesis by (simp add: find_append_case)
    qed
  next
    case False
    with Cons.prems have d: "distinct (map ctl_element (fs @ [a]))"
      and m: "c \<in> set (fst (addControls cs (fs @ [a], map ctl_element (fs @ [a]))))"
      by auto
    from Cons.IH [OF d m] show ?thesis by simp
  qed
qed

lemma inspectAllFormControls_addControls:
  "inspectAllFormControls ids document =
     fst (addControls (findAngularFormControls ids document @
                       findGenericFormControls ids document @
                       findMaterialFormControls ids document)
          ([], map ctl_element ([] :: control list)))"
  by (simp add: inspectAllFormControls_def addControls_append)

text \<open>
  C10: the list \<open>inspectAllFormControls\<close> returns holds at most one descriptor per element;
  every element some pass proposes is covered; and the descriptor kept for an element is
  the first one proposed for it in the order Angular pass, generic pass, Material pass, so
  an element the Angular pass proposes is never emitted again by a later pass and a repeated
  candidate within one pass is dropped.
\<close>

theorem inspectAllFormControls_one_per_element:
  "distinct (map ctl_element (inspectAllFormControls ids document)) \<and>
   set (map ctl_element (inspectAllFormControls ids document)) =
     set (map ctl_element (findAngularFormControls ids document @
                           findGenericFormControls ids document @
                           findMaterialFormControls ids document)) \<and>
   (\<forall>c \<in> set (inspectAllFormControls ids document).
      find (\<lambda>d. ctl_element d = ctl_element c)
        (findAngularFormControls ids document @
         findGenericFormControls ids document @
         findMaterialFormControls ids document) = Some c)"
proof (intro conjI ballI)
  show "distinct (map ctl_element (inspectAllFormControls ids document))"
    unfolding inspectAllFormControls_addControls
    by (rule addControls_distinct) simp
next
  show "set (map ctl_element (inspectAllFormControls ids document)) =
     set (map ctl_element (findAngularFormControls ids document @
                           findGenericFormControls ids document @
                           findMaterialFormControls ids document))"
    unfolding inspectAllFormControls_addControls
    by (simp only: addControls_elements) simp
next
  fix c
  assume "c \<in> set (inspectAllFormControls ids document)"
  then have "c \<in> set (fst (addControls (findAngularFormControls ids document @
                       findGenericFormControls ids document @
                       findMaterialFormControls ids document)
                       ([], map ctl_element ([] :: control list))))"
    by (simp only: inspectAllFormControls_addControls)
  from addControls_first [of "[]", OF _ this]
  show "find (\<lambda>d. ctl_element d = ctl_element c)
        (findAngularFormControls ids document @
         findGenericFormControls ids document @
         findMaterialFormControls ids document) = Some c"
    by simp
qed

theorem inspectAllFormControls_one_per_element_witness:
  "map ctl_element (inspectAllFormControls pageIds formPage) =
     [Some 3, Some 4, Some 6, Some 7, Some 8] \<and>
   distinct (map ctl_element (inspectAllFormControls pageIds formPage)) \<and>
   find (\<lambda>d. ctl_element d = ctl_element (hd (inspectAllFormControls pageIds formPage)))
     (findAngularFormControls pageIds formPage @
      findGenericFormControls pageIds formPage @
      findMaterialFormControls pageIds formPage) =
     Some (hd (inspectAllFormControls pageIds formPage))"
proof -
  have r: "map ctl_element (inspectAllFormControls pageIds formPage) =
     [Some 3, Some 4, Some 6, Some 7, Some 8]"
    by code_simp
  then have "inspectAllFormControls pageIds formPage \<noteq> []" by auto
  then have h: "hd (inspectAllFormControls pageIds formPage) \<in>
      set (inspectAllFormControls pageIds formPage)"
    by simp
  from inspectAllFormControls_one_per_element [of pageIds formPage] h r
  show ?thesis by blast
qed

section \<open>Restoring a snapshot\<close>





























section \<open>Selects\<close>

lemma lowerChar_code_unit:
  "(of_char (lowerChar c) :: nat) =
     (if (65 \<le> (of_char c :: nat) \<and> (of_char c :: nat) \<le> 90) \<or>
         (192 \<le> (of_char c :: nat) \<and> (of_char c :: nat) \<le> 222 \<and> (of_char c :: nat) \<noteq> 215)
      then of_char c + 32 else of_char c)"
proof (cases c)
  case (Char b0 b1 b2 b3 b4 b5 b6 b7)
  then show ?thesis
    by (cases b0; cases b1; cases b2; cases b3; cases b4; cases b5; cases b6; cases b7; simp)
qed

lemma findIndex_Some:
  "findIndex P xs = Some i \<Longrightarrow> i < length xs \<and> P (xs ! i) \<and> (\<forall>j < i. \<not> P (xs ! j))"
proof (induction xs arbitrary: i)
  case Nil
  then show ?case by simp
next
  case (Cons x xs)
  show ?case
  proof (cases "P x")
    case True
    with Cons.prems show ?thesis by simp
  next
    case False
    with Cons.prems obtain k where k: "findIndex P xs = Some k" "i = Suc k"
      by (auto split: option.splits)
    from Cons.IH [OF k(1)] False k(2) show ?thesis
      by (auto simp: nth_Cons split: nat.splits)
  qed
qed

lemma findIndex_None: "findIndex P xs = None \<longleftrightarrow> (\<forall>x \<in> set xs. \<not> P x)"
  by (induction xs) (auto split: option.splits)

lemma restoreSelectValue_selects:
  "restoreSelectValue e v = Inr e' \<Longrightarrow>
   \<exists>i < length (el_options e). el_selectedIndex e' = int i \<and>
     (VStr (fst (el_options e ! i)) = v \<or> VStr (snd (el_options e ! i)) = v) \<and>
     (\<forall>j < i. VStr (fst (el_options e ! j)) \<noteq> v \<and> VStr (snd (el_options e ! j)) \<noteq> v)"
  by (auto simp: restoreSelectValue_def assignSelectedIndex_def split: option.splits
      dest!: findIndex_Some)

lemma restoreSelectValue_not_found:
  "(\<forall>option \<in> set (el_options e). VStr (fst option) \<noteq> v \<and> VStr (snd option) \<noteq> v) \<Longrightarrow>
   restoreSelectValue e v = Inl (''Option not found: '' @ toString v)"
  by (simp add: restoreSelectValue_def findIndex_None [THEN iffD2])

text \<open>
  C8: \<open>restoreSelectValue\<close> selects the first option whose value or text equals the
  snapshot value, but \<open>restoreControlValue\<close> then calls \<open>triggerChangeEvent\<close>, which assigns
  the snapshot value to \<open>element.value\<close>: when the match was by text only, no option has
  that value and the select ends with no option selected, although the control is counted
  as restored.
\<close>

theorem restoreControlValue_label_match_deselects:
  "restoreSelectValue planSelect (VStr ''Pro'') =
     Inr (planSelect\<lparr>el_selectedIndex := 1, el_value := Some ''2''\<rparr>) \<and>
   (case restoreControlValue formPage planControl (planControl\<lparr>ctl_value := VStr ''Pro''\<rparr>) of
      (Some msg, document') \<Rightarrow> False
    | (None, document') \<Rightarrow>
        map_option el_selectedIndex (lookupElement document' (Some 7)) = Some (- 1))"
  by code_simp

end
